theory Spec2Isabelle
  imports Complex_Main "HOL-Library.Sublist"
begin

section \<open>JavaScript values the catalog client computes with\<close>

text \<open>
  Page numbers, page sizes, indices and lengths are JavaScript numbers that hold
  integers; they are modelled as \<open>int\<close>. The one place where the code can leave the
  integers is the quotient \<open>filteredAvatars.length / params.page_size\<close>, which is
  \<open>Infinity\<close> or \<open>NaN\<close> for a page size of zero; \<open>jsnum\<close> keeps those two values.
  Strings are lists of code units below 256.
\<close>

datatype jsnum = Num int | Infinity | NaN

text \<open>A value of TypeScript type \<open>any\<close> (the \<open>error\<close> field of every response).\<close>

datatype jsval = JNull | JUndefined | JBool bool | JNumber jsnum | JString string | JObject

text \<open>What \<open>if (v)\<close> tests.\<close>

fun truthy :: "jsval \<Rightarrow> bool" where
  "truthy JNull = False"
| "truthy JUndefined = False"
| "truthy (JBool b) = b"
| "truthy (JNumber (Num n)) = (n \<noteq> 0)"
| "truthy (JNumber Infinity) = True"
| "truthy (JNumber NaN) = False"
| "truthy (JString s) = (s \<noteq> [])"
| "truthy JObject = True"

text \<open>\<open>n <= m\<close> for an integer \<open>n\<close>: every comparison with \<open>NaN\<close> is false.\<close>

fun num_le :: "int \<Rightarrow> jsnum \<Rightarrow> bool" where
  "num_le n (Num m) = (n \<le> m)"
| "num_le n Infinity = True"
| "num_le n NaN = False"

text \<open>
  \<open>Array.prototype.slice(start, end)\<close>: a negative index counts from the end, both
  indices are clamped to the array, and an empty range gives the empty array.
\<close>

definition js_slice :: "'a list \<Rightarrow> int \<Rightarrow> int \<Rightarrow> 'a list" where
  "js_slice xs start end' =
     (let len = int (length xs);
          k = (if start < 0 then max (len + start) 0 else min start len);
          final = (if end' < 0 then max (len + end') 0 else min end' len)
      in take (nat (final - k)) (drop (nat k) xs))"

text \<open>
  \<open>Math.ceil(a / b)\<close> for integers \<open>a \<ge> 0\<close> and \<open>b\<close>: the quotient by zero is
  \<open>Infinity\<close> (\<open>NaN\<close> for \<open>0 / 0\<close>), otherwise the ceiling of the exact quotient.
\<close>

definition ceil_div :: "int \<Rightarrow> int \<Rightarrow> jsnum" where
  "ceil_div a b =
     (if b = 0 then (if a = 0 then NaN else Infinity) else Num (- ((- a) div b)))"

text \<open>\<open>Number.prototype.toString()\<close> and template interpolation of an integer.\<close>

fun string_of_nat :: "nat \<Rightarrow> string" where
  "string_of_nat n =
     (if n < 10 then [char_of (48 + n)]
      else string_of_nat (n div 10) @ [char_of (48 + n mod 10)])"

declare string_of_nat.simps [simp del]

definition string_of_int :: "int \<Rightarrow> string" where
  "string_of_int i = (if i < 0 then CHR ''-'' # string_of_nat (nat (- i)) else string_of_nat (nat i))"

text \<open>\<open>String.prototype.includes(sub)\<close>.\<close>

fun str_includes :: "string \<Rightarrow> string \<Rightarrow> bool" where
  "str_includes [] sub = (sub = [])"
| "str_includes (c # cs) sub = (take (length sub) (c # cs) = sub \<or> str_includes cs sub)"

text \<open>\<open>String.prototype.replace(pat, rep)\<close> with a string pattern: the first occurrence only.\<close>

fun replace_first :: "string \<Rightarrow> string \<Rightarrow> string \<Rightarrow> string" where
  "replace_first pat rep [] = (if pat = [] then rep else [])"
| "replace_first pat rep (c # cs) =
     (if take (length pat) (c # cs) = pat then rep @ drop (length pat) (c # cs)
      else c # replace_first pat rep cs)"

text \<open>
  \<open>parseInt(s)\<close> without a radix: leading white space is skipped, then an optional
  sign, then \<open>0x\<close> or \<open>0X\<close> selects radix 16, then the longest run of digits of the
  radix is read; no digit at all gives \<open>NaN\<close>, here \<open>None\<close>. White space among the
  code units below 256 is TAB, LF, VT, FF, CR, SP and NBSP.
\<close>

definition is_ws :: "char \<Rightarrow> bool" where
  "is_ws c = ((of_char c :: nat) \<in> {9, 10, 11, 12, 13, 32, 160})"

definition digit_val :: "char \<Rightarrow> nat" where
  "digit_val c =
     (let n = (of_char c :: nat) in
      if 48 \<le> n \<and> n \<le> 57 then n - 48
      else if 97 \<le> n \<and> n \<le> 122 then n - 87
      else if 65 \<le> n \<and> n \<le> 90 then n - 55
      else 36)"

text \<open>The characters \<open>0\<close> to \<open>9\<close>.\<close>

definition dec_digit :: "char \<Rightarrow> bool" where
  "dec_digit c = (48 \<le> (of_char c :: nat) \<and> (of_char c :: nat) \<le> 57)"

definition is_digit_in :: "nat \<Rightarrow> char \<Rightarrow> bool" where
  "is_digit_in radix c = (digit_val c < radix)"

definition digits_value :: "nat \<Rightarrow> string \<Rightarrow> nat" where
  "digits_value radix ds = foldl (\<lambda>acc c. acc * radix + digit_val c) 0 ds"

definition parseInt :: "string \<Rightarrow> int option" where
  "parseInt input =
     (let s = dropWhile is_ws input;
          sign = (if take 1 s = ''-'' then - 1 else 1 :: int);
          s1 = (if take 1 s = ''-'' \<or> take 1 s = ''+'' then drop 1 s else s);
          radix = (if take 2 s1 = ''0x'' \<or> take 2 s1 = ''0X'' then 16 else 10);
          s2 = (if take 2 s1 = ''0x'' \<or> take 2 s1 = ''0X'' then drop 2 s1 else s1);
          z = takeWhile (is_digit_in radix) s2
      in if z = [] then None else Some (sign * int (digits_value radix z)))"

section \<open>Data model (types/Avatar.ts)\<close>

datatype Gender = male | female

record Avatar =
  avatar_id :: string
  avatar_name :: string
  gender :: Gender
  preview_image_url :: string
  preview_video_url :: string
  premium :: bool
  type :: "string option"
  tags :: "string list option"
  default_voice_id :: "string option"

record VoiceOption =
  voice_id :: string
  voice_name :: string
  language :: string
  voice_gender :: Gender
  preview_audio_url :: "string option"

record UsageStats =
  total_videos :: int
  total_duration :: int

record AvatarDetails = Avatar +
  description :: "string option"
  created_at :: "string option"
  updated_at :: "string option"
  status :: "string option"
  languages :: "string list option"
  voices :: "VoiceOption list option"
  usage_stats :: "UsageStats option"

text \<open>
  The fields of \<open>AvatarGroup\<close> that share a name with a field of \<open>Avatar\<close> or
  \<open>AvatarDetails\<close> carry the prefix \<open>group_\<close> here.
\<close>

record AvatarGroup =
  avatar_group_id :: string
  title :: string
  group_description :: "string option"
  avatar_count :: int
  is_public :: bool
  group_created_at :: string
  group_updated_at :: string
  group_preview_image_url :: "string option"

record PaginationParams =
  page :: int
  page_size :: int

text \<open>The \<open>data\<close> object of an \<open>AvatarResponse\<close>; \<open>page\<close> and \<open>page_size\<close> echo the request.\<close>

record AvatarPage =
  page_avatars :: "Avatar list"
  count :: int
  total :: int
  data_page :: int
  data_page_size :: int
  total_pages :: jsnum

record AvatarGroupList =
  avatar_groups :: "AvatarGroup list"
  groups_count :: int
  groups_total :: int

text \<open>Every response is \<open>{error: any, data: ...}\<close>.\<close>

record 'd ApiResponse =
  resp_error :: jsval
  data :: 'd

type_synonym AvatarResponse = "AvatarPage ApiResponse"
type_synonym AvatarGroupResponse = "AvatarGroupList ApiResponse"
type_synonym AvatarDetailsResponse = "AvatarDetails ApiResponse"

section \<open>Catalog client (services/HeyGenService.ts)\<close>

subsection \<open>The substitute data\<close>

definition url_preview_1 :: string where
  "url_preview_1 = ''https://files2.heygen.ai/avatar/v3/1ad51ab9fee24ae88af067206e14a1d8_44250/preview_target.webp''"

definition url_video_1 :: string where
  "url_video_1 = ''https://files2.heygen.ai/avatar/v3/1ad51ab9fee24ae88af067206e14a1d8_44250/preview_video_target.mp4''"

definition url_preview_2 :: string where
  "url_preview_2 = ''https://files2.heygen.ai/avatar/v3/463208b6cad140d2b263535826838e3a_39240/preview_target.webp''"

definition url_video_2 :: string where
  "url_video_2 = ''https://files2.heygen.ai/avatar/v3/463208b6cad140d2b263535826838e3a_39240/preview_video_target.mp4''"

definition url_preview_3 :: string where
  "url_preview_3 = ''https://files2.heygen.ai/avatar/v3/9886d46db7f24260bb219c756ca0d759_39250/preview_target.webp''"

definition url_video_3 :: string where
  "url_video_3 = ''https://files2.heygen.ai/avatar/v3/9886d46db7f24260bb219c756ca0d759_39250/preview_video_target.mp4''"

text \<open>The element that \<open>Array.from({ length: 50 }, (_, i) => ...)\<close> builds at index \<open>i\<close>.\<close>

definition generated_avatar :: "nat \<Rightarrow> Avatar" where
  "generated_avatar i =
     \<lparr> avatar_id = ''mock_avatar_'' @ string_of_nat (i + 4),
       avatar_name = ''Avatar '' @ string_of_nat (i + 4),
       gender = (if i mod 2 = 0 then male else female),
       preview_image_url = url_preview_1,
       preview_video_url = url_video_1,
       premium = (i mod 5 = 0),
       type = None, tags = None, default_voice_id = None \<rparr>"

definition allMockAvatars :: "Avatar list" where
  "allMockAvatars =
     [ \<lparr> avatar_id = ''Abigail_expressive_2024112501'', avatar_name = ''Abigail (Upper Body)'',
         gender = female, preview_image_url = url_preview_1, preview_video_url = url_video_1,
         premium = False, type = None, tags = None, default_voice_id = None \<rparr>,
       \<lparr> avatar_id = ''Abigail_standing_office_front'', avatar_name = ''Abigail Office Front'',
         gender = female, preview_image_url = url_preview_2, preview_video_url = url_video_2,
         premium = False, type = None, tags = None, default_voice_id = None \<rparr>,
       \<lparr> avatar_id = ''Abigail_standing_office_side'', avatar_name = ''Abigail Office Side'',
         gender = female, preview_image_url = url_preview_3, preview_video_url = url_video_3,
         premium = False, type = None, tags = None, default_voice_id = None \<rparr> ]
     @ map generated_avatar [0 ..< 50]"

text \<open>
  The first half of \<open>getMockAvatarData\<close>: the pool after the group filter. An absent
  \<open>groupId\<close> is \<open>None\<close>; \<open>if (groupId && groupId !== 'all')\<close> is false for the absent,
  the empty and the \<open>'all'\<close> identifier. \<open>parseInt(...) || 1\<close> is 1 for \<open>NaN\<close> and for 0.
\<close>

definition groupIndex_of :: "string \<Rightarrow> int" where
  "groupIndex_of groupId =
     (case parseInt (replace_first ''group_'' [] groupId) of
        None \<Rightarrow> 1
      | Some n \<Rightarrow> if n = 0 then 1 else n)"

definition filteredAvatars_of :: "string option \<Rightarrow> Avatar list" where
  "filteredAvatars_of groupId =
     (case groupId of
        None \<Rightarrow> allMockAvatars
      | Some g \<Rightarrow>
          if g \<noteq> [] \<and> g \<noteq> ''all'' then
            (let groupIndex = groupIndex_of g;
                 startIndex = (groupIndex - 1) * 15;
                 endIndex = startIndex + 15
             in js_slice allMockAvatars startIndex endIndex)
          else allMockAvatars)"

definition getMockAvatarData :: "PaginationParams \<Rightarrow> string option \<Rightarrow> AvatarResponse" where
  "getMockAvatarData params groupId =
     (let filteredAvatars = filteredAvatars_of groupId;
          startIndex = (page params - 1) * page_size params;
          endIndex = startIndex + page_size params;
          paginatedAvatars = js_slice filteredAvatars startIndex endIndex;
          totalPages = ceil_div (int (length filteredAvatars)) (page_size params)
      in \<lparr> resp_error = JNull,
           data = \<lparr> page_avatars = paginatedAvatars,
                    count = int (length paginatedAvatars),
                    total = int (length filteredAvatars),
                    data_page = page params,
                    data_page_size = page_size params,
                    total_pages = totalPages \<rparr> \<rparr>)"

definition mockGroups :: "AvatarGroup list" where
  "mockGroups =
     [ \<lparr> avatar_group_id = ''group_1'', title = ''Business Professionals'',
         group_description = Some ''Professional avatars for corporate presentations and business content'',
         avatar_count = 15, is_public = True,
         group_created_at = ''2024-01-15T10:00:00Z'', group_updated_at = ''2024-01-20T14:30:00Z'',
         group_preview_image_url = Some url_preview_1 \<rparr>,
       \<lparr> avatar_group_id = ''group_2'', title = ''Casual & Friendly'',
         group_description = Some ''Approachable avatars perfect for educational content and casual presentations'',
         avatar_count = 12, is_public = True,
         group_created_at = ''2024-01-10T09:15:00Z'', group_updated_at = ''2024-01-18T16:45:00Z'',
         group_preview_image_url = Some url_preview_2 \<rparr>,
       \<lparr> avatar_group_id = ''group_3'', title = ''Healthcare & Medical'',
         group_description = Some ''Professional medical avatars for healthcare communications'',
         avatar_count = 8, is_public = True,
         group_created_at = ''2024-01-12T11:20:00Z'', group_updated_at = ''2024-01-22T13:10:00Z'',
         group_preview_image_url = Some url_preview_3 \<rparr>,
       \<lparr> avatar_group_id = ''group_4'', title = ''Creative & Artistic'',
         group_description = Some ''Unique and creative avatars for artistic and innovative content'',
         avatar_count = 10, is_public = False,
         group_created_at = ''2024-01-08T15:30:00Z'', group_updated_at = ''2024-01-25T10:20:00Z'',
         group_preview_image_url = None \<rparr> ]"

definition getMockGroupData :: AvatarGroupResponse where
  "getMockGroupData =
     \<lparr> resp_error = JNull,
       data = \<lparr> avatar_groups = mockGroups,
                groups_count = int (length mockGroups),
                groups_total = int (length mockGroups) \<rparr> \<rparr>"

definition getMockAvatarDetails :: "string \<Rightarrow> AvatarDetailsResponse" where
  "getMockAvatarDetails avatarId =
     \<lparr> resp_error = JNull,
       data =
         \<lparr> avatar_id = avatarId,
           avatar_name = (if str_includes avatarId ''Abigail'' then ''Abigail Professional''
                          else ''Professional Avatar''),
           gender = (if str_includes avatarId ''female'' \<or> str_includes avatarId ''Abigail''
                     then female else male),
           preview_image_url = url_preview_1,
           preview_video_url = url_video_1,
           premium = False,
           type = Some ''professional'',
           tags = Some [''business'', ''professional'', ''corporate''],
           default_voice_id = Some ''voice_001'',
           description = Some ''A professional avatar perfect for business presentations and corporate communications. Features natural expressions and professional attire.'',
           created_at = Some ''2024-01-15T10:00:00Z'',
           updated_at = Some ''2024-01-20T14:30:00Z'',
           status = Some ''active'',
           languages = Some [''en-US'', ''en-GB'', ''es-ES'', ''fr-FR''],
           voices = Some
             [ \<lparr> voice_id = ''voice_001'', voice_name = ''Professional Female'',
                 language = ''en-US'', voice_gender = female,
                 preview_audio_url = Some ''https://example.com/voice_preview.mp3'' \<rparr>,
               \<lparr> voice_id = ''voice_002'', voice_name = ''Business Casual'',
                 language = ''en-US'', voice_gender = female,
                 preview_audio_url = Some ''https://example.com/voice_preview2.mp3'' \<rparr> ],
           usage_stats = Some \<lparr> total_videos = 1250, total_duration = 45600 \<rparr> \<rparr> \<rparr>"

subsection \<open>The three operations\<close>

text \<open>
  A thrown value is either an \<open>Error\<close> object with its message or some other value.
  \<open>await fetch(...)\<close> either rejects or resolves to a response with its \<open>ok\<close> flag and
  \<open>status\<close>; \<open>await response.json()\<close> either rejects or yields the parsed body. The
  outcome of the network call is a parameter of each operation; the request that is
  sent is not modelled.
\<close>

datatype exn = JsError string | NonError

record 'd HttpResponse =
  ok :: bool
  http_status :: int
  json :: "exn + 'd"

type_synonym 'd fetch_outcome = "exn + 'd HttpResponse"

definition try_catch :: "exn + 'a \<Rightarrow> (exn \<Rightarrow> exn + 'a) \<Rightarrow> exn + 'a" where
  "try_catch body handler = (case body of Inl e \<Rightarrow> handler e | Inr v \<Rightarrow> Inr v)"

text \<open>The body of the \<open>try\<close> block, the same in the three operations.\<close>

definition live_request :: "'d fetch_outcome \<Rightarrow> exn + 'd" where
  "live_request net =
     (case net of
        Inl e \<Rightarrow> Inl e
      | Inr response \<Rightarrow>
          if \<not> ok response
          then Inl (JsError (''HTTP error! status: '' @ string_of_int (http_status response)))
          else json response)"

definition fetchAvatars ::
  "AvatarResponse fetch_outcome \<Rightarrow> PaginationParams \<Rightarrow> string option \<Rightarrow> exn + AvatarResponse" where
  "fetchAvatars net params groupId =
     try_catch (live_request net) (\<lambda>error. Inr (getMockAvatarData params groupId))"

definition fetchAvatarGroups ::
  "AvatarGroupResponse fetch_outcome \<Rightarrow> bool \<Rightarrow> exn + AvatarGroupResponse" where
  "fetchAvatarGroups net includePublic =
     try_catch (live_request net) (\<lambda>error. Inr getMockGroupData)"

definition fetchAvatarDetails ::
  "AvatarDetailsResponse fetch_outcome \<Rightarrow> string \<Rightarrow> exn + AvatarDetailsResponse" where
  "fetchAvatarDetails net avatarId =
     try_catch (live_request net) (\<lambda>error. Inr (getMockAvatarDetails avatarId))"

text \<open>A network error, a thrown exception, or a status outside the success range.\<close>

definition transport_failed :: "'d fetch_outcome \<Rightarrow> bool" where
  "transport_failed net =
     (case net of
        Inl e \<Rightarrow> True
      | Inr response \<Rightarrow> \<not> ok response \<or> (case json response of Inl e \<Rightarrow> True | Inr d \<Rightarrow> False))"

section \<open>View-state orchestrator (components/AvatarGallery.tsx)\<close>

datatype ViewMode = avatars_view | groups_view

datatype GenderFilter = all_genders | only Gender

record FilterOptions =
  gender_filter :: GenderFilter
  premiumOnly :: bool
  selectedGroup :: "string option"

text \<open>The \<open>useState\<close> cells of the component; \<open>pageSize\<close> is never set.\<close>

record GalleryState =
  avatars :: "Avatar list"
  groups :: "AvatarGroup list"
  loading :: bool
  groupsLoading :: bool
  error :: "string option"
  viewMode :: ViewMode
  selectedAvatarId :: "string option"
  filters :: FilterOptions
  currentPage :: int
  totalPages :: jsnum
  totalItems :: int

definition pageSize :: int where
  "pageSize = 20"

definition initialState :: GalleryState where
  "initialState =
     \<lparr> avatars = [], groups = [], loading = True, groupsLoading = True, error = None,
       viewMode = avatars_view, selectedAvatarId = None,
       filters = \<lparr> gender_filter = all_genders, premiumOnly = False, selectedGroup = None \<rparr>,
       currentPage = 1, totalPages = Num 1, totalItems = 0 \<rparr>"

text \<open>
  What a handler leaves behind besides the new state: the calls to the catalog client
  it starts (an avatars call remembers its \<open>resetPage\<close> flag for the continuation) and
  the scroll to the top of the window.
\<close>

datatype Effect =
    FetchAvatarsCall PaginationParams "string option" bool
  | FetchGroupsCall bool
  | ScrollToTop

text \<open>
  An \<open>async\<close> function is split at its \<open>await\<close>: the part that runs at the call, and
  the part that runs when the awaited promise settles (with the value, or with what
  was thrown).
\<close>

definition fetchGroups_call :: "GalleryState \<Rightarrow> GalleryState \<times> Effect list" where
  "fetchGroups_call s = (s\<lparr>groupsLoading := True\<rparr>, [FetchGroupsCall False])"

definition fetchGroups_settle ::
  "GalleryState \<Rightarrow> exn + AvatarGroupResponse \<Rightarrow> GalleryState \<times> Effect list" where
  "fetchGroups_settle s outcome =
     ((case outcome of
         Inr response \<Rightarrow>
           if truthy (resp_error response) then s\<lparr>groups := []\<rparr>
           else s\<lparr>groups := avatar_groups (data response)\<rparr>
       | Inl err \<Rightarrow> s\<lparr>groups := []\<rparr>)
      \<lparr>groupsLoading := False\<rparr>, [])"

definition fetchAvatars_call :: "GalleryState \<Rightarrow> int \<Rightarrow> bool \<Rightarrow> GalleryState \<times> Effect list" where
  "fetchAvatars_call s pg resetPage =
     (s\<lparr>loading := True, error := None\<rparr>,
      [FetchAvatarsCall \<lparr> page = (if resetPage then 1 else pg), page_size = pageSize \<rparr>
         (selectedGroup (filters s)) resetPage])"

text \<open>\<open>err instanceof Error ? err.message : 'Unknown error occurred'\<close>\<close>

definition error_message :: "exn \<Rightarrow> string" where
  "error_message err = (case err of JsError m \<Rightarrow> m | NonError \<Rightarrow> ''Unknown error occurred'')"

definition fetchAvatars_settle ::
  "GalleryState \<Rightarrow> bool \<Rightarrow> exn + AvatarResponse \<Rightarrow> GalleryState \<times> Effect list" where
  "fetchAvatars_settle s resetPage outcome =
     ((case (case outcome of
               Inl err \<Rightarrow> Inl err
             | Inr response \<Rightarrow>
                 if truthy (resp_error response)
                 then Inl (JsError ''Failed to fetch avatars from API'')
                 else Inr (s\<lparr> avatars := page_avatars (data response),
                             totalPages := total_pages (data response),
                             totalItems := total (data response),
                             currentPage := (if resetPage then 1 else data_page (data response)) \<rparr>))
       of Inl err \<Rightarrow> s\<lparr>error := Some (error_message err)\<rparr>
        | Inr s' \<Rightarrow> s')
      \<lparr>loading := False\<rparr>, [])"

text \<open>
  The effect with dependency \<open>[filters.selectedGroup]\<close>: it runs after a render in which
  the selected group differs from the one of the render before, and sees the state of
  the new render.
\<close>

definition selectedGroup_effect :: "GalleryState \<Rightarrow> GalleryState \<Rightarrow> GalleryState \<times> Effect list" where
  "selectedGroup_effect prev s =
     (if selectedGroup (filters s) \<noteq> selectedGroup (filters prev) then
        (if \<not> groupsLoading s then fetchAvatars_call s 1 True else (s, []))
      else (s, []))"

text \<open>The two effects of the first render, in the order of the source.\<close>

definition mount :: "GalleryState \<Rightarrow> GalleryState \<times> Effect list" where
  "mount s =
     (let (s1, e1) = fetchGroups_call s;
          (s2, e2) = fetchAvatars_call s1 1 True;
          (s3, e3) = (if \<not> groupsLoading s then fetchAvatars_call s2 1 True else (s2, []))
      in (s3, e1 @ e2 @ e3))"

text \<open>
  The memoised \<open>filteredAvatars\<close>. The state cell \<open>avatars\<close> always holds an array, so
  the guard \<open>if (!avatars) return []\<close> is never taken.
\<close>

definition filteredAvatars :: "Avatar list \<Rightarrow> FilterOptions \<Rightarrow> Avatar list" where
  "filteredAvatars avs fs =
     filter (\<lambda>avatar.
        if gender_filter fs \<noteq> all_genders \<and> only (gender avatar) \<noteq> gender_filter fs then False
        else if premiumOnly fs \<and> \<not> premium avatar then False
        else True) avs"

definition handleFiltersChange :: "GalleryState \<Rightarrow> FilterOptions \<Rightarrow> GalleryState \<times> Effect list" where
  "handleFiltersChange s newFilters = selectedGroup_effect s (s\<lparr>filters := newFilters\<rparr>)"

definition handleGroupChange :: "GalleryState \<Rightarrow> string option \<Rightarrow> GalleryState \<times> Effect list" where
  "handleGroupChange s groupId =
     selectedGroup_effect s (s\<lparr>filters := (filters s)\<lparr>selectedGroup := groupId\<rparr>\<rparr>)"

definition handleGroupSelect :: "GalleryState \<Rightarrow> string \<Rightarrow> GalleryState \<times> Effect list" where
  "handleGroupSelect s groupId =
     selectedGroup_effect s
       (s\<lparr>filters := (filters s)\<lparr>selectedGroup := Some groupId\<rparr>, viewMode := avatars_view\<rparr>)"

definition handlePageChange :: "GalleryState \<Rightarrow> int \<Rightarrow> GalleryState \<times> Effect list" where
  "handlePageChange s pg =
     (if pg \<noteq> currentPage s \<and> pg \<ge> 1 \<and> num_le pg (totalPages s) then
        (let (s', es) = fetchAvatars_call s pg False in (s', es @ [ScrollToTop]))
      else (s, []))"

definition handleRetry :: "GalleryState \<Rightarrow> GalleryState \<times> Effect list" where
  "handleRetry s =
     (if viewMode s = groups_view then fetchGroups_call s
      else fetchAvatars_call s (currentPage s) False)"

definition handleViewModeChange :: "GalleryState \<Rightarrow> ViewMode \<Rightarrow> GalleryState \<times> Effect list" where
  "handleViewModeChange s mode = (s\<lparr>viewMode := mode\<rparr>, [])"

definition handleShowAvatarDetails :: "GalleryState \<Rightarrow> string \<Rightarrow> GalleryState \<times> Effect list" where
  "handleShowAvatarDetails s avatarId = (s\<lparr>selectedAvatarId := Some avatarId\<rparr>, [])"

definition handleCloseAvatarDetails :: "GalleryState \<Rightarrow> GalleryState \<times> Effect list" where
  "handleCloseAvatarDetails s = (s\<lparr>selectedAvatarId := None\<rparr>, [])"

subsection \<open>Two sessions, run through the handlers\<close>

text \<open>
  The state after the first render, once both initial calls have settled with the
  substitute data of the catalog client, and the state after a further change to
  page 3.
\<close>

definition loadedState :: GalleryState where
  "loadedState =
     fst (fetchAvatars_settle
            (fst (fetchGroups_settle (fst (mount initialState)) (Inr getMockGroupData)))
            True
            (Inr (getMockAvatarData \<lparr>page = 1, page_size = pageSize\<rparr> None)))"

definition pageThreeState :: GalleryState where
  "pageThreeState =
     fst (fetchAvatars_settle (fst (handlePageChange loadedState 3)) False
            (Inr (getMockAvatarData \<lparr>page = 3, page_size = pageSize\<rparr> None)))"

section \<open>Auxiliary facts\<close>

lemma dec_digit_facts:
  assumes "dec_digit c"
  shows "\<not> is_ws c" "is_digit_in 10 c" "c \<noteq> CHR ''-''" "c \<noteq> CHR ''+''"
    "c \<noteq> CHR ''x''" "c \<noteq> CHR ''X''"
  using assms by (auto simp: dec_digit_def is_ws_def is_digit_in_def digit_val_def)

lemma dec_digit_char_of: "(m::nat) < 10 \<Longrightarrow> dec_digit (char_of (48 + m))"
  by (simp add: dec_digit_def)

lemma digit_val_char_of: "(m::nat) < 10 \<Longrightarrow> digit_val (char_of (48 + m)) = m"
  by (simp add: digit_val_def)

lemma string_of_nat_nonempty: "string_of_nat n \<noteq> []"
  by (subst string_of_nat.simps) simp

lemma string_of_nat_digits: "c \<in> set (string_of_nat n) \<Longrightarrow> dec_digit c"
proof (induction n arbitrary: c rule: string_of_nat.induct)
  case (1 n)
  show ?case
  proof (cases "n < 10")
    case True
    with "1.prems" show ?thesis
      by (subst (asm) string_of_nat.simps) (simp add: dec_digit_char_of)
  next
    case False
    with "1.prems" have "c \<in> set (string_of_nat (n div 10)) \<or> c = char_of (48 + n mod 10)"
      by (subst (asm) string_of_nat.simps) auto
    then show ?thesis
      using "1.IH" False by (auto intro: dec_digit_char_of)
  qed
qed

lemma digits_value_snoc:
  "digits_value r (ds @ [c]) = digits_value r ds * r + digit_val c"
  by (simp add: digits_value_def)

lemma digits_value_string_of_nat: "digits_value 10 (string_of_nat n) = n"
proof (induction n rule: string_of_nat.induct)
  case (1 n)
  show ?case
  proof (cases "n < 10")
    case True
    then show ?thesis
      by (subst string_of_nat.simps) (simp add: digits_value_def digit_val_char_of)
  next
    case False
    then have "digits_value 10 (string_of_nat n)
        = digits_value 10 (string_of_nat (n div 10)) * 10 + digit_val (char_of (48 + n mod 10))"
      by (subst string_of_nat.simps) (simp add: digits_value_snoc)
    also have "\<dots> = (n div 10) * 10 + n mod 10"
      using "1.IH" False by (simp add: digit_val_char_of)
    finally show ?thesis by simp
  qed
qed

lemma parseInt_decimal:
  assumes ne: "s \<noteq> []" and dig: "\<forall>c \<in> set s. dec_digit c"
  shows "parseInt s = Some (int (digits_value 10 s))"
proof -
  obtain c cs where s: "s = c # cs" using ne by (cases s) auto
  have c: "dec_digit c" using dig s by simp
  have ws: "dropWhile is_ws s = s" using s dec_digit_facts(1)[OF c] by simp
  have t1: "take 1 s \<noteq> ''-''" "take 1 s \<noteq> ''+''"
    using s dec_digit_facts(3,4)[OF c] by auto
  have t2: "take 2 s \<noteq> ''0x''" "take 2 s \<noteq> ''0X''"
  proof -
    show "take 2 s \<noteq> ''0x''"
    proof (cases cs)
      case Nil then show ?thesis using s by simp
    next
      case (Cons d ds)
      then have "dec_digit d" using dig s by simp
      then show ?thesis using s Cons dec_digit_facts(5) by auto
    qed
    show "take 2 s \<noteq> ''0X''"
    proof (cases cs)
      case Nil then show ?thesis using s by simp
    next
      case (Cons d ds)
      then have "dec_digit d" using dig s by simp
      then show ?thesis using s Cons dec_digit_facts(6) by auto
    qed
  qed
  have tw: "takeWhile (is_digit_in 10) s = s"
    using dig dec_digit_facts(2) by (simp add: takeWhile_eq_all_conv)
  show ?thesis
    unfolding parseInt_def Let_def using ws t1 t2 tw ne
    by (simp del: takeWhile_eq_all_conv)
qed

lemma parseInt_string_of_nat: "parseInt (string_of_nat k) = Some (int k)"
  using parseInt_decimal[of "string_of_nat k"] string_of_nat_nonempty string_of_nat_digits
  by (simp add: digits_value_string_of_nat)

lemma replace_first_group_prefix: "replace_first ''group_'' [] (''group_'' @ s) = s"
  by simp

lemma groupIndex_of_group_k: "k \<noteq> 0 \<Longrightarrow> groupIndex_of (''group_'' @ string_of_nat k) = int k"
  by (simp add: groupIndex_of_def parseInt_string_of_nat)

lemma length_allMockAvatars: "length allMockAvatars = 53"
  by (simp add: allMockAvatars_def)

lemma js_slice_window:
  "0 \<le> a \<Longrightarrow> 0 \<le> n \<Longrightarrow> js_slice xs a (a + n) = take (nat n) (drop (nat a) xs)"
  unfolding js_slice_def Let_def
  by (auto simp: min_def max_def)

lemma group_k_not_all: "''group_'' @ s \<noteq> ''all''" "''group_'' @ s \<noteq> []"
  by simp_all

lemma filteredAvatars_of_index:
  "g \<noteq> [] \<Longrightarrow> g \<noteq> ''all'' \<Longrightarrow> 1 \<le> groupIndex_of g \<Longrightarrow>
   filteredAvatars_of (Some g) = take 15 (drop (nat ((groupIndex_of g - 1) * 15)) allMockAvatars)"
proof -
  assume g: "g \<noteq> []" "g \<noteq> ''all''" and i: "1 \<le> groupIndex_of g"
  have "js_slice allMockAvatars ((groupIndex_of g - 1) * 15) ((groupIndex_of g - 1) * 15 + 15)
      = take (nat 15) (drop (nat ((groupIndex_of g - 1) * 15)) allMockAvatars)"
    using i by (intro js_slice_window) auto
  then show ?thesis
    using g by (simp add: filteredAvatars_of_def Let_def)
qed

lemma js_slice_past_end: "int (length xs) \<le> start \<Longrightarrow> js_slice xs start end' = []"
  unfolding js_slice_def Let_def by (auto simp: min_def max_def)

lemma ceil_div_below:
  assumes "0 < b" "a \<le> (p - 1) * b"
  shows "- ((- a) div b) < (p::int)"
proof -
  have "(- ((p - 1) * b)) div b \<le> (- a) div b"
    using assms by (intro zdiv_mono1) auto
  moreover have "(- ((p - 1) * b)) div b = - (p - 1)"
    using assms(1) by (metis minus_mult_left nonzero_mult_div_cancel_right less_irrefl)
  ultimately show ?thesis by linarith
qed

lemma filtered_none: "filteredAvatars_of None = allMockAvatars"
  by (simp add: filteredAvatars_of_def)

lemma ceil_div_ceiling:
  "b \<noteq> 0 \<Longrightarrow> ceil_div a b = Num \<lceil>real_of_int a / real_of_int b\<rceil>"
  by (simp add: ceil_div_def ceiling_divide_eq_div)

lemma live_request_failed: "transport_failed net \<Longrightarrow> \<exists>e. live_request net = Inl e"
  by (auto simp: transport_failed_def live_request_def split: sum.splits)

lemma try_catch_total: "(\<And>e. \<exists>r. handler e = Inr r) \<Longrightarrow> \<exists>r. try_catch body handler = Inr r"
  by (cases body) (auto simp: try_catch_def)

lemma try_catch_failed: "body = Inl e \<Longrightarrow> try_catch body handler = handler e"
  by (simp add: try_catch_def)

lemma fetchAvatars_fallback:
  "transport_failed net \<Longrightarrow> fetchAvatars net params groupId = Inr (getMockAvatarData params groupId)"
  using live_request_failed[of net] by (auto simp: fetchAvatars_def try_catch_failed)

lemma fetchAvatars_live:
  "fetchAvatars (Inr \<lparr>ok = True, http_status = st, json = Inr body\<rparr>) params groupId = Inr body"
  by (simp add: fetchAvatars_def live_request_def try_catch_def)

lemma fetchAvatarGroups_fallback:
  "transport_failed net \<Longrightarrow> fetchAvatarGroups net includePublic = Inr getMockGroupData"
  using live_request_failed[of net] by (auto simp: fetchAvatarGroups_def try_catch_failed)

lemma fetchAvatarDetails_fallback:
  "transport_failed net \<Longrightarrow> fetchAvatarDetails net avatarId = Inr (getMockAvatarDetails avatarId)"
  using live_request_failed[of net] by (auto simp: fetchAvatarDetails_def try_catch_failed)

lemma getMockAvatarData_total:
  "total (data (getMockAvatarData params groupId)) = int (length (filteredAvatars_of groupId))"
  by (simp add: getMockAvatarData_def Let_def)

lemma getMockAvatarData_total_pages:
  "total_pages (data (getMockAvatarData params groupId))
     = ceil_div (int (length (filteredAvatars_of groupId))) (page_size params)"
  by (simp add: getMockAvatarData_def Let_def)

lemma selectedGroup_effect_changed:
  "selectedGroup (filters s) \<noteq> selectedGroup (filters prev) \<Longrightarrow> \<not> groupsLoading s \<Longrightarrow>
   selectedGroup_effect prev s =
     (s\<lparr>loading := True, error := None\<rparr>,
      [FetchAvatarsCall \<lparr>page = 1, page_size = 20\<rparr> (selectedGroup (filters s)) True])"
  by (simp add: selectedGroup_effect_def fetchAvatars_call_def pageSize_def)

lemma selectedGroup_effect_gated:
  "groupsLoading s \<Longrightarrow> selectedGroup_effect prev s = (s, [])"
  by (simp add: selectedGroup_effect_def)

lemma selectedGroup_effect_same:
  "selectedGroup (filters s) = selectedGroup (filters prev) \<Longrightarrow> selectedGroup_effect prev s = (s, [])"
  by (simp add: selectedGroup_effect_def)

lemma fetchAvatars_settle_ok:
  "\<not> truthy (resp_error r) \<Longrightarrow>
   fetchAvatars_settle s resetPage (Inr r) =
     (s\<lparr> avatars := page_avatars (data r), totalPages := total_pages (data r),
         totalItems := total (data r),
         currentPage := (if resetPage then 1 else data_page (data r)), loading := False \<rparr>, [])"
  by (simp add: fetchAvatars_settle_def)

lemma fetchAvatars_settle_error:
  "truthy (resp_error r) \<Longrightarrow>
   fetchAvatars_settle s resetPage (Inr r) =
     (s\<lparr> error := Some ''Failed to fetch avatars from API'', loading := False \<rparr>, [])"
  by (simp add: fetchAvatars_settle_def error_message_def)

lemma fetchGroups_settle_error:
  "truthy (resp_error g) \<Longrightarrow>
   fetchGroups_settle s (Inr g) = (s\<lparr> groups := [], groupsLoading := False \<rparr>, [])"
  by (simp add: fetchGroups_settle_def)

lemma getMockAvatarData_error [simp]: "resp_error (getMockAvatarData params groupId) = JNull"
  by (simp add: getMockAvatarData_def Let_def)

lemma getMockAvatarData_page [simp]: "data_page (data (getMockAvatarData params groupId)) = page params"
  by (simp add: getMockAvatarData_def Let_def)

lemma getMockGroupData_fields [simp]:
  "resp_error getMockGroupData = JNull" "avatar_groups (data getMockGroupData) = mockGroups"
  by (simp_all add: getMockGroupData_def)

lemma mount_initial:
  "mount initialState =
     (initialState, [FetchGroupsCall False, FetchAvatarsCall \<lparr>page = 1, page_size = 20\<rparr> None True])"
  by (simp add: mount_def initialState_def fetchGroups_call_def fetchAvatars_call_def pageSize_def)

lemma loadedState_eq:
  "loadedState =
     initialState\<lparr> groups := mockGroups, groupsLoading := False,
       avatars := page_avatars (data (getMockAvatarData \<lparr>page = 1, page_size = 20\<rparr> None)),
       totalPages := Num 3, totalItems := 53, currentPage := 1, loading := False \<rparr>"
  by (simp add: loadedState_def mount_initial fetchGroups_settle_def fetchAvatars_settle_ok
      pageSize_def getMockAvatarData_total getMockAvatarData_total_pages filtered_none
      length_allMockAvatars ceil_div_def)

lemma loadedState_fields:
  "groupsLoading loadedState = False" "loading loadedState = False"
  "currentPage loadedState = 1" "totalPages loadedState = Num 3" "totalItems loadedState = 53"
  "filters loadedState = \<lparr>gender_filter = all_genders, premiumOnly = False, selectedGroup = None\<rparr>"
  "groups loadedState = mockGroups" "error loadedState = None" "viewMode loadedState = avatars_view"
  by (simp_all add: loadedState_eq initialState_def)

lemma handlePageChange_valid:
  "1 \<le> n \<Longrightarrow> num_le n (totalPages s) \<Longrightarrow> n \<noteq> currentPage s \<Longrightarrow>
   handlePageChange s n =
     (s\<lparr>loading := True, error := None\<rparr>,
      [FetchAvatarsCall \<lparr>page = n, page_size = 20\<rparr> (selectedGroup (filters s)) False, ScrollToTop])"
  by (simp add: handlePageChange_def fetchAvatars_call_def pageSize_def)

lemma handlePageChange_invalid:
  "\<not> (1 \<le> n \<and> num_le n (totalPages s) \<and> n \<noteq> currentPage s) \<Longrightarrow> handlePageChange s n = (s, [])"
  by (auto simp: handlePageChange_def)

lemma pageThreeState_fields:
  "groupsLoading pageThreeState = False" "currentPage pageThreeState = 3"
  "totalPages pageThreeState = Num 3"
  "filters pageThreeState = \<lparr>gender_filter = all_genders, premiumOnly = False, selectedGroup = None\<rparr>"
  by (simp_all add: pageThreeState_def handlePageChange_valid loadedState_fields
      fetchAvatars_settle_ok pageSize_def getMockAvatarData_total_pages filtered_none
      length_allMockAvatars ceil_div_def)

lemma loadedState_avatars:
  "avatars loadedState = take 20 allMockAvatars"
  by (simp add: loadedState_eq getMockAvatarData_def Let_def filtered_none js_slice_def
      length_allMockAvatars)

section \<open>The claims\<close>

text \<open>
  Claim C1. Whatever the network does, each of the three operations of the catalog
  client returns a response and throws nothing; when the transport fails (the request
  rejects, the status is not a success, or the body cannot be read) the response is
  the substitute one: the mock avatars page for the requested parameters, the mock
  group list, or the mock detail record for the requested identifier.
\<close>

theorem catalog_client_absorbs_failure:
  "(\<exists>r. fetchAvatars net1 params groupId = Inr r)
   \<and> (\<exists>r. fetchAvatarGroups net2 includePublic = Inr r)
   \<and> (\<exists>r. fetchAvatarDetails net3 avatarId = Inr r)
   \<and> (transport_failed net1 \<longrightarrow>
        fetchAvatars net1 params groupId = Inr (getMockAvatarData params groupId))
   \<and> (transport_failed net2 \<longrightarrow>
        fetchAvatarGroups net2 includePublic = Inr getMockGroupData)
   \<and> (transport_failed net3 \<longrightarrow>
        fetchAvatarDetails net3 avatarId = Inr (getMockAvatarDetails avatarId))"
proof (intro conjI impI)
  show "\<exists>r. fetchAvatars net1 params groupId = Inr r"
    unfolding fetchAvatars_def by (rule try_catch_total) simp
  show "\<exists>r. fetchAvatarGroups net2 includePublic = Inr r"
    unfolding fetchAvatarGroups_def by (rule try_catch_total) simp
  show "\<exists>r. fetchAvatarDetails net3 avatarId = Inr r"
    unfolding fetchAvatarDetails_def by (rule try_catch_total) simp
qed (simp_all add: fetchAvatars_fallback fetchAvatarGroups_fallback fetchAvatarDetails_fallback)

theorem catalog_client_absorbs_failure_witness:
  "transport_failed (Inl (JsError ''Failed to fetch'') :: AvatarResponse fetch_outcome)
   \<and> transport_failed (Inr \<lparr>ok = False, http_status = 500, json = Inl NonError\<rparr> :: AvatarGroupResponse fetch_outcome)
   \<and> transport_failed (Inr \<lparr>ok = True, http_status = 200, json = Inl (JsError ''Unexpected token'')\<rparr> :: AvatarDetailsResponse fetch_outcome)
   \<and> fetchAvatars (Inl (JsError ''Failed to fetch'')) \<lparr>page = 1, page_size = 20\<rparr> None
        = Inr (getMockAvatarData \<lparr>page = 1, page_size = 20\<rparr> None)
   \<and> fetchAvatarGroups (Inr \<lparr>ok = False, http_status = 500, json = Inl NonError\<rparr>) False
        = Inr getMockGroupData
   \<and> fetchAvatarDetails (Inr \<lparr>ok = True, http_status = 200, json = Inl (JsError ''Unexpected token'')\<rparr>) ''mock_avatar_7''
        = Inr (getMockAvatarDetails ''mock_avatar_7'')"
  using catalog_client_absorbs_failure
    [of "Inl (JsError ''Failed to fetch'')" "\<lparr>page = 1, page_size = 20\<rparr>" None
        "Inr \<lparr>ok = False, http_status = 500, json = Inl NonError\<rparr>" False
        "Inr \<lparr>ok = True, http_status = 200, json = Inl (JsError ''Unexpected token'')\<rparr>" "''mock_avatar_7''"]
  by (simp add: transport_failed_def)

text \<open>
  Claim C2, as the code has it. On the fallback path, for a positive page size,
  \<open>total_pages\<close> is the ceiling of \<open>total / page_size\<close> and nothing more: it is 0
  when the narrowed pool is empty and at least 1 exactly when the pool has an element.
  No floor of 1 is applied. That page is what the avatars fetch returns when the
  transport fails. When the live request succeeds, the fetch returns the body as it
  was received, so \<open>total_pages\<close> is the number the server sent, whatever \<open>total\<close>
  and \<open>page_size\<close> are.
\<close>

theorem avatars_fetch_total_pages:
  assumes "0 < page_size params"
  shows "total_pages (data (getMockAvatarData params groupId))
           = Num \<lceil>real_of_int (total (data (getMockAvatarData params groupId)))
                   / real_of_int (page_size params)\<rceil>
         \<and> (total (data (getMockAvatarData params groupId)) = 0 \<longrightarrow>
              total_pages (data (getMockAvatarData params groupId)) = Num 0)
         \<and> (0 < total (data (getMockAvatarData params groupId)) \<longrightarrow>
              (\<exists>tp. total_pages (data (getMockAvatarData params groupId)) = Num tp \<and> 1 \<le> tp))
         \<and> (transport_failed net \<longrightarrow>
              fetchAvatars net params groupId = Inr (getMockAvatarData params groupId))
         \<and> fetchAvatars (Inr \<lparr>ok = True, http_status = st, json = Inr body\<rparr>) params groupId
              = Inr body
         \<and> (\<forall>r. fetchAvatars (Inr \<lparr>ok = True, http_status = st, json = Inr body\<rparr>) params groupId
                    = Inr r \<longrightarrow>
                  total_pages (data r) = total_pages (data body) \<and> total (data r) = total (data body))"
proof -
  let ?t = "int (length (filteredAvatars_of groupId))"
  let ?b = "page_size params"
  have tp: "total_pages (data (getMockAvatarData params groupId)) = Num \<lceil>real_of_int ?t / real_of_int ?b\<rceil>"
    using assms by (simp add: getMockAvatarData_total_pages ceil_div_ceiling)
  have pos: "0 < ?t \<longrightarrow> 1 \<le> \<lceil>real_of_int ?t / real_of_int ?b\<rceil>"
  proof
    assume "0 < ?t"
    then have "0 < real_of_int ?t / real_of_int ?b"
      using assms by (intro divide_pos_pos) simp_all
    then show "1 \<le> \<lceil>real_of_int ?t / real_of_int ?b\<rceil>"
      by (simp only: one_le_ceiling)
  qed
  have mock: "total_pages (data (getMockAvatarData params groupId))
           = Num \<lceil>real_of_int (total (data (getMockAvatarData params groupId)))
                   / real_of_int (page_size params)\<rceil>
         \<and> (total (data (getMockAvatarData params groupId)) = 0 \<longrightarrow>
              total_pages (data (getMockAvatarData params groupId)) = Num 0)
         \<and> (0 < total (data (getMockAvatarData params groupId)) \<longrightarrow>
              (\<exists>tp. total_pages (data (getMockAvatarData params groupId)) = Num tp \<and> 1 \<le> tp))"
    using tp pos by (auto simp: getMockAvatarData_total)
  have failed: "transport_failed net \<longrightarrow>
      fetchAvatars net params groupId = Inr (getMockAvatarData params groupId)"
    by (simp add: fetchAvatars_fallback)
  have live: "fetchAvatars (Inr \<lparr>ok = True, http_status = st, json = Inr body\<rparr>) params groupId
      = Inr body"
    by (rule fetchAvatars_live)
  have same: "\<forall>r. fetchAvatars (Inr \<lparr>ok = True, http_status = st, json = Inr body\<rparr>) params groupId
                    = Inr r \<longrightarrow>
                  total_pages (data r) = total_pages (data body) \<and> total (data r) = total (data body)"
    by (simp add: live)
  from mock failed live same show ?thesis by blast
qed

theorem avatars_fetch_total_pages_witness:
  "0 < page_size \<lparr>page = 1, page_size = 20\<rparr>
   \<and> total_pages (data (getMockAvatarData \<lparr>page = 1, page_size = 20\<rparr> None)) = Num 3
   \<and> total (data (getMockAvatarData \<lparr>page = 1, page_size = 20\<rparr> None)) = 53
   \<and> transport_failed (Inl (JsError ''Failed to fetch'') :: AvatarResponse fetch_outcome)
   \<and> fetchAvatars (Inl (JsError ''Failed to fetch'')) \<lparr>page = 1, page_size = 20\<rparr> None
       = Inr (getMockAvatarData \<lparr>page = 1, page_size = 20\<rparr> None)
   \<and> fetchAvatars
        (Inr \<lparr>ok = True, http_status = 200,
              json = Inr \<lparr>resp_error = JNull,
                          data = \<lparr>page_avatars = [], count = 0, total = 41, data_page = 1,
                                   data_page_size = 20, total_pages = Num 3\<rparr>\<rparr>\<rparr>)
        \<lparr>page = 1, page_size = 20\<rparr> None
       = Inr \<lparr>resp_error = JNull,
               data = \<lparr>page_avatars = [], count = 0, total = 41, data_page = 1,
                        data_page_size = 20, total_pages = Num 3\<rparr>\<rparr>"
proof -
  have t: "total (data (getMockAvatarData \<lparr>page = 1, page_size = 20\<rparr> None)) = 53"
    by (simp add: getMockAvatarData_total filteredAvatars_of_def allMockAvatars_def)
  have c: "\<lceil>(53::real) / 20\<rceil> = 3" by (simp add: ceiling_eq_iff)
  have f: "transport_failed (Inl (JsError ''Failed to fetch'') :: AvatarResponse fetch_outcome)"
    by (simp add: transport_failed_def)
  show ?thesis
    using avatars_fetch_total_pages
      [of "\<lparr>page = 1, page_size = 20\<rparr>" None "Inl (JsError ''Failed to fetch'')" 200
          "\<lparr>resp_error = JNull,
             data = \<lparr>page_avatars = [], count = 0, total = 41, data_page = 1,
                      data_page_size = 20, total_pages = Num 3\<rparr>\<rparr>"]
      t c f
    by simp
qed

text \<open>
  Two results of the avatars fetch against the claim as stated. On the fallback path,
  for \<open>group_5\<close> the window starts at index 60, beyond the 53 elements of the pool:
  \<open>total\<close> is 0 and \<open>total_pages\<close> is 0, below 1. On the live path, a body that
  announces 7 pages for 53 items at 20 per page is returned as it is, and 7 is not
  the ceiling of \<open>53 / 20\<close>.
\<close>

theorem avatars_fetch_total_pages_counterexample:
  "1 \<le> page \<lparr>page = 1, page_size = 20\<rparr> \<and> 0 < page_size \<lparr>page = 1, page_size = 20\<rparr>
   \<and> fetchAvatars (Inl (JsError ''Failed to fetch'')) \<lparr>page = 1, page_size = 20\<rparr> (Some ''group_5'')
       = Inr (getMockAvatarData \<lparr>page = 1, page_size = 20\<rparr> (Some ''group_5''))
   \<and> total (data (getMockAvatarData \<lparr>page = 1, page_size = 20\<rparr> (Some ''group_5''))) = 0
   \<and> total_pages (data (getMockAvatarData \<lparr>page = 1, page_size = 20\<rparr> (Some ''group_5''))) = Num 0
   \<and> \<not> num_le 1 (total_pages (data (getMockAvatarData \<lparr>page = 1, page_size = 20\<rparr> (Some ''group_5''))))
   \<and> fetchAvatars
        (Inr \<lparr>ok = True, http_status = 200,
              json = Inr \<lparr>resp_error = JNull,
                          data = \<lparr>page_avatars = [], count = 0, total = 53, data_page = 1,
                                   data_page_size = 20, total_pages = Num 7\<rparr>\<rparr>\<rparr>)
        \<lparr>page = 1, page_size = 20\<rparr> None
       = Inr \<lparr>resp_error = JNull,
               data = \<lparr>page_avatars = [], count = 0, total = 53, data_page = 1,
                        data_page_size = 20, total_pages = Num 7\<rparr>\<rparr>
   \<and> Num 7 \<noteq> Num (max 1 \<lceil>(53::real) / 20\<rceil>)"
proof -
  have p: "parseInt ''5'' = Some 5"
    by (simp add: parseInt_def is_ws_def is_digit_in_def digit_val_def digits_value_def)
  have "filteredAvatars_of (Some ''group_5'') = []"
    by (simp add: filteredAvatars_of_def groupIndex_of_def p js_slice_def allMockAvatars_def)
  then have mock: "total (data (getMockAvatarData \<lparr>page = 1, page_size = 20\<rparr> (Some ''group_5''))) = 0
      \<and> total_pages (data (getMockAvatarData \<lparr>page = 1, page_size = 20\<rparr> (Some ''group_5''))) = Num 0"
    by (simp add: getMockAvatarData_def js_slice_def ceil_div_def)
  have failed: "fetchAvatars (Inl (JsError ''Failed to fetch'')) \<lparr>page = 1, page_size = 20\<rparr> (Some ''group_5'')
       = Inr (getMockAvatarData \<lparr>page = 1, page_size = 20\<rparr> (Some ''group_5''))"
    by (simp add: fetchAvatars_fallback transport_failed_def)
  have c: "\<lceil>(53::real) / 20\<rceil> = 3" by (simp add: ceiling_eq_iff)
  show ?thesis
    using mock failed c by (simp add: fetchAvatars_live)
qed

text \<open>
  Claim C3. The visible avatars are the loaded avatars, in their order, that pass
  both tests: the gender filter is \<open>all\<close> or equals the avatar's gender, and the
  premium filter is off or the avatar is premium. The result depends on the filter
  state through \<open>gender\<close> and \<open>premiumOnly\<close> only; being a function of its
  arguments it is the same on every evaluation and starts no call.
\<close>

theorem filteredAvatars_characterised:
  "filteredAvatars avs fs =
     filter (\<lambda>a. (gender_filter fs = all_genders \<or> only (gender a) = gender_filter fs)
                \<and> (\<not> premiumOnly fs \<or> premium a)) avs
   \<and> (\<forall>a. a \<in> set (filteredAvatars avs fs) \<longleftrightarrow>
          a \<in> set avs
          \<and> (gender_filter fs = all_genders \<or> only (gender a) = gender_filter fs)
          \<and> (\<not> premiumOnly fs \<or> premium a))
   \<and> (gender_filter fs' = gender_filter fs \<and> premiumOnly fs' = premiumOnly fs \<longrightarrow>
        filteredAvatars avs fs' = filteredAvatars avs fs)"
proof -
  have eq: "filteredAvatars avs fs =
     filter (\<lambda>a. (gender_filter fs = all_genders \<or> only (gender a) = gender_filter fs)
                \<and> (\<not> premiumOnly fs \<or> premium a)) avs"
    unfolding filteredAvatars_def by (rule filter_cong) auto
  have mem: "\<forall>a. a \<in> set (filteredAvatars avs fs) \<longleftrightarrow>
          a \<in> set avs
          \<and> (gender_filter fs = all_genders \<or> only (gender a) = gender_filter fs)
          \<and> (\<not> premiumOnly fs \<or> premium a)"
    by (simp only: eq set_filter) blast
  have indep: "gender_filter fs' = gender_filter fs \<and> premiumOnly fs' = premiumOnly fs \<longrightarrow>
        filteredAvatars avs fs' = filteredAvatars avs fs"
    by (simp add: filteredAvatars_def)
  from eq mem indep show ?thesis by blast
qed

theorem filteredAvatars_characterised_witness:
  "filteredAvatars [generated_avatar 0, generated_avatar 1, generated_avatar 5]
      \<lparr>gender_filter = only female, premiumOnly = True, selectedGroup = None\<rparr>
     = [generated_avatar 5]
   \<and> filteredAvatars [generated_avatar 0, generated_avatar 1, generated_avatar 5]
      \<lparr>gender_filter = only female, premiumOnly = True, selectedGroup = Some ''group_2''\<rparr>
     = filteredAvatars [generated_avatar 0, generated_avatar 1, generated_avatar 5]
      \<lparr>gender_filter = only female, premiumOnly = True, selectedGroup = None\<rparr>"
  using filteredAvatars_characterised
    [of "[generated_avatar 0, generated_avatar 1, generated_avatar 5]"
        "\<lparr>gender_filter = only female, premiumOnly = True, selectedGroup = None\<rparr>"
        "\<lparr>gender_filter = only female, premiumOnly = True, selectedGroup = Some ''group_2''\<rparr>"]
  by (simp add: generated_avatar_def)

text \<open>
  Claim C4, as the code has it. When the groups are not loading, a change of
  \<open>selectedGroup\<close> through any of the three handlers starts exactly one avatars call,
  for page 1 and the new group; \<open>currentPage\<close> becomes 1 when that call settles
  with a response free of an error. While the groups are loading the handlers store
  the new filter and start nothing.
\<close>

theorem group_change_refetches_page_one:
  "(\<not> groupsLoading s \<and> selectedGroup newFilters \<noteq> selectedGroup (filters s) \<longrightarrow>
      handleFiltersChange s newFilters =
        (s\<lparr>filters := newFilters, loading := True, error := None\<rparr>,
         [FetchAvatarsCall \<lparr>page = 1, page_size = 20\<rparr> (selectedGroup newFilters) True]))
   \<and> (\<not> groupsLoading s \<and> groupId \<noteq> selectedGroup (filters s) \<longrightarrow>
      handleGroupChange s groupId =
        (s\<lparr>filters := (filters s)\<lparr>selectedGroup := groupId\<rparr>, loading := True, error := None\<rparr>,
         [FetchAvatarsCall \<lparr>page = 1, page_size = 20\<rparr> groupId True]))
   \<and> (\<not> groupsLoading s \<and> Some gid \<noteq> selectedGroup (filters s) \<longrightarrow>
      handleGroupSelect s gid =
        (s\<lparr>filters := (filters s)\<lparr>selectedGroup := Some gid\<rparr>, viewMode := avatars_view,
           loading := True, error := None\<rparr>,
         [FetchAvatarsCall \<lparr>page = 1, page_size = 20\<rparr> (Some gid) True]))
   \<and> (\<not> truthy (resp_error r) \<longrightarrow>
        currentPage (fst (fetchAvatars_settle s' True (Inr r))) = 1)
   \<and> (groupsLoading t \<longrightarrow>
        handleFiltersChange t newFilters = (t\<lparr>filters := newFilters\<rparr>, [])
        \<and> handleGroupChange t groupId = (t\<lparr>filters := (filters t)\<lparr>selectedGroup := groupId\<rparr>\<rparr>, [])
        \<and> handleGroupSelect t gid =
            (t\<lparr>filters := (filters t)\<lparr>selectedGroup := Some gid\<rparr>, viewMode := avatars_view\<rparr>, []))"
proof (intro conjI impI)
  assume "\<not> groupsLoading s \<and> selectedGroup newFilters \<noteq> selectedGroup (filters s)"
  then show "handleFiltersChange s newFilters =
        (s\<lparr>filters := newFilters, loading := True, error := None\<rparr>,
         [FetchAvatarsCall \<lparr>page = 1, page_size = 20\<rparr> (selectedGroup newFilters) True])"
    by (simp add: handleFiltersChange_def selectedGroup_effect_changed)
next
  assume "\<not> groupsLoading s \<and> groupId \<noteq> selectedGroup (filters s)"
  then show "handleGroupChange s groupId =
        (s\<lparr>filters := (filters s)\<lparr>selectedGroup := groupId\<rparr>, loading := True, error := None\<rparr>,
         [FetchAvatarsCall \<lparr>page = 1, page_size = 20\<rparr> groupId True])"
    by (simp add: handleGroupChange_def selectedGroup_effect_changed)
next
  assume "\<not> groupsLoading s \<and> Some gid \<noteq> selectedGroup (filters s)"
  then show "handleGroupSelect s gid =
        (s\<lparr>filters := (filters s)\<lparr>selectedGroup := Some gid\<rparr>, viewMode := avatars_view,
           loading := True, error := None\<rparr>,
         [FetchAvatarsCall \<lparr>page = 1, page_size = 20\<rparr> (Some gid) True])"
    by (simp add: handleGroupSelect_def selectedGroup_effect_changed)
next
  assume "\<not> truthy (resp_error r)"
  then show "currentPage (fst (fetchAvatars_settle s' True (Inr r))) = 1"
    by (simp add: fetchAvatars_settle_ok)
next
  assume "groupsLoading t"
  then show "handleFiltersChange t newFilters = (t\<lparr>filters := newFilters\<rparr>, [])"
    by (simp add: handleFiltersChange_def selectedGroup_effect_gated)
next
  assume "groupsLoading t"
  then show "handleGroupChange t groupId = (t\<lparr>filters := (filters t)\<lparr>selectedGroup := groupId\<rparr>\<rparr>, [])"
    by (simp add: handleGroupChange_def selectedGroup_effect_gated)
next
  assume "groupsLoading t"
  then show "handleGroupSelect t gid =
            (t\<lparr>filters := (filters t)\<lparr>selectedGroup := Some gid\<rparr>, viewMode := avatars_view\<rparr>, [])"
    by (simp add: handleGroupSelect_def selectedGroup_effect_gated)
qed

theorem group_change_refetches_page_one_witness:
  "handleGroupChange loadedState (Some ''group_2'') =
     (loadedState\<lparr>filters := (filters loadedState)\<lparr>selectedGroup := Some ''group_2''\<rparr>,
        loading := True, error := None\<rparr>,
      [FetchAvatarsCall \<lparr>page = 1, page_size = 20\<rparr> (Some ''group_2'') True])
   \<and> handleGroupSelect loadedState ''group_2'' =
     (loadedState\<lparr>filters := (filters loadedState)\<lparr>selectedGroup := Some ''group_2''\<rparr>,
        viewMode := avatars_view, loading := True, error := None\<rparr>,
      [FetchAvatarsCall \<lparr>page = 1, page_size = 20\<rparr> (Some ''group_2'') True])
   \<and> snd (handleFiltersChange loadedState
        \<lparr>gender_filter = all_genders, premiumOnly = False, selectedGroup = Some ''group_2''\<rparr>)
       = [FetchAvatarsCall \<lparr>page = 1, page_size = 20\<rparr> (Some ''group_2'') True]
   \<and> currentPage (fst (fetchAvatars_settle
        (fst (handleGroupChange pageThreeState (Some ''group_2''))) True
        (Inr (getMockAvatarData \<lparr>page = 1, page_size = 20\<rparr> (Some ''group_2''))))) = 1
   \<and> groupsLoading initialState
   \<and> snd (handleGroupChange initialState (Some ''group_2'')) = []"
  using group_change_refetches_page_one
    [of loadedState "\<lparr>gender_filter = all_genders, premiumOnly = False, selectedGroup = Some ''group_2''\<rparr>"
        "Some ''group_2''" "''group_2''"
        "getMockAvatarData \<lparr>page = 1, page_size = 20\<rparr> (Some ''group_2'')"
        "fst (handleGroupChange pageThreeState (Some ''group_2''))" initialState]
  by (simp add: loadedState_fields) (simp add: initialState_def)

text \<open>
  Two runs against the claim as stated. In the initial state the groups are loading,
  and a change of group starts no call. On page 3, a change of group starts the call,
  and when its response carries an error the current page is still 3.
\<close>

theorem group_change_counterexample:
  "groupsLoading initialState
   \<and> Some ''group_2'' \<noteq> selectedGroup (filters initialState)
   \<and> snd (handleGroupChange initialState (Some ''group_2'')) = []
   \<and> \<not> groupsLoading pageThreeState
   \<and> Some ''group_2'' \<noteq> selectedGroup (filters pageThreeState)
   \<and> currentPage (fst (fetchAvatars_settle
        (fst (handleGroupChange pageThreeState (Some ''group_2''))) True
        (Inr \<lparr>resp_error = JString ''rate limited'',
              data = data (getMockAvatarData \<lparr>page = 1, page_size = 20\<rparr> (Some ''group_2''))\<rparr>))) = 3"
proof -
  have a: "groupsLoading initialState" "Some ''group_2'' \<noteq> selectedGroup (filters initialState)"
    by (simp_all add: initialState_def)
  have b: "snd (handleGroupChange initialState (Some ''group_2'')) = []"
    using a(1) by (simp add: handleGroupChange_def selectedGroup_effect_gated)
  have c: "currentPage (fst (handleGroupChange pageThreeState (Some ''group_2''))) = 3"
    by (simp add: handleGroupChange_def selectedGroup_effect_changed pageThreeState_fields)
  have d: "currentPage (fst (fetchAvatars_settle
        (fst (handleGroupChange pageThreeState (Some ''group_2''))) True
        (Inr \<lparr>resp_error = JString ''rate limited'',
              data = data (getMockAvatarData \<lparr>page = 1, page_size = 20\<rparr> (Some ''group_2''))\<rparr>))) = 3"
    by (simp add: fetchAvatars_settle_error c)
  show ?thesis
    using a b d by (simp add: pageThreeState_fields)
qed

text \<open>
  Claim C5. Two failed calls with the same arguments give the same result, whatever
  the two failures were: the substitute avatars page depends on
  \<open>(page, page_size, groupId)\<close> only, the substitute group list on nothing (not even
  on \<open>includePublic\<close>), the substitute detail record on the avatar identifier only.
\<close>

theorem fallback_deterministic:
  "(transport_failed n1 \<and> transport_failed n2 \<longrightarrow>
       fetchAvatars n1 params groupId = fetchAvatars n2 params groupId)
   \<and> (transport_failed g1 \<and> transport_failed g2 \<longrightarrow>
       fetchAvatarGroups g1 p1 = fetchAvatarGroups g2 p2)
   \<and> (transport_failed d1 \<and> transport_failed d2 \<longrightarrow>
       fetchAvatarDetails d1 avatarId = fetchAvatarDetails d2 avatarId)"
  by (simp add: fetchAvatars_fallback fetchAvatarGroups_fallback fetchAvatarDetails_fallback)

theorem fallback_deterministic_witness:
  "fetchAvatars (Inl NonError) \<lparr>page = 2, page_size = 20\<rparr> (Some ''group_1'')
     = fetchAvatars (Inr \<lparr>ok = False, http_status = 503, json = Inl NonError\<rparr>)
         \<lparr>page = 2, page_size = 20\<rparr> (Some ''group_1'')
   \<and> fetchAvatarGroups (Inl NonError) False
     = fetchAvatarGroups (Inr \<lparr>ok = False, http_status = 404, json = Inl NonError\<rparr>) True
   \<and> fetchAvatarDetails (Inl (JsError ''offline'')) ''Abigail_expressive_2024112501''
     = fetchAvatarDetails (Inr \<lparr>ok = True, http_status = 200, json = Inl NonError\<rparr>)
         ''Abigail_expressive_2024112501''"
  using fallback_deterministic
    [of "Inl NonError" "Inr \<lparr>ok = False, http_status = 503, json = Inl NonError\<rparr>"
        "\<lparr>page = 2, page_size = 20\<rparr>" "Some ''group_1''"
        "Inl NonError" "Inr \<lparr>ok = False, http_status = 404, json = Inl NonError\<rparr>" False True
        "Inl (JsError ''offline'')" "Inr \<lparr>ok = True, http_status = 200, json = Inl NonError\<rparr>"
        "''Abigail_expressive_2024112501''"]
  by (simp add: transport_failed_def)

text \<open>
  Claim C6. A page request \<open>n\<close> starts an avatars call for page \<open>n\<close> with the
  current group exactly when \<open>1 \<le> n \<le> totalPages\<close> and \<open>n\<close> is not the current
  page; otherwise the state is unchanged, nothing is started and no error is stored.
\<close>

theorem page_change_guard:
  "(1 \<le> n \<and> num_le n (totalPages s) \<and> n \<noteq> currentPage s \<longrightarrow>
      handlePageChange s n =
        (s\<lparr>loading := True, error := None\<rparr>,
         [FetchAvatarsCall \<lparr>page = n, page_size = 20\<rparr> (selectedGroup (filters s)) False,
          ScrollToTop]))
   \<and> (\<not> (1 \<le> n \<and> num_le n (totalPages s) \<and> n \<noteq> currentPage s) \<longrightarrow>
      handlePageChange s n = (s, []))
   \<and> (totalPages s = Num tp \<longrightarrow> (num_le n (totalPages s) \<longleftrightarrow> n \<le> tp))"
  using handlePageChange_valid[of n s] handlePageChange_invalid[of n s] by auto

theorem page_change_guard_witness:
  "handlePageChange loadedState 2 =
     (loadedState\<lparr>loading := True, error := None\<rparr>,
      [FetchAvatarsCall \<lparr>page = 2, page_size = 20\<rparr> None False, ScrollToTop])
   \<and> handlePageChange loadedState 5 = (loadedState, [])
   \<and> handlePageChange loadedState 1 = (loadedState, [])
   \<and> handlePageChange loadedState 0 = (loadedState, [])"
  using page_change_guard[of 2 loadedState 3] page_change_guard[of 5 loadedState 3]
    page_change_guard[of 1 loadedState 3] page_change_guard[of 0 loadedState 3]
  by (simp add: loadedState_fields)

text \<open>
  Claim C7, as the code has it. An avatars response whose \<open>error\<close> field is truthy
  stores the message in \<open>error\<close>, keeps the avatars and the pagination state, and
  starts nothing. A groups response whose \<open>error\<close> field is truthy replaces the
  group list with the empty list, stores no error, and starts nothing.
\<close>

theorem logical_failure_handling:
  "(truthy (resp_error r) \<longrightarrow>
      fetchAvatars_settle s resetPage (Inr r) =
        (s\<lparr>error := Some ''Failed to fetch avatars from API'', loading := False\<rparr>, [])
      \<and> avatars (fst (fetchAvatars_settle s resetPage (Inr r))) = avatars s
      \<and> currentPage (fst (fetchAvatars_settle s resetPage (Inr r))) = currentPage s
      \<and> totalPages (fst (fetchAvatars_settle s resetPage (Inr r))) = totalPages s
      \<and> totalItems (fst (fetchAvatars_settle s resetPage (Inr r))) = totalItems s)
   \<and> (truthy (resp_error g) \<longrightarrow>
      fetchGroups_settle s (Inr g) = (s\<lparr>groups := [], groupsLoading := False\<rparr>, [])
      \<and> error (fst (fetchGroups_settle s (Inr g))) = error s)"
  by (simp add: fetchAvatars_settle_error fetchGroups_settle_error)

theorem logical_failure_handling_witness:
  "fetchAvatars_settle (fst (handlePageChange loadedState 2)) False
       (Inr \<lparr>resp_error = JString ''quota exceeded'',
             data = data (getMockAvatarData \<lparr>page = 2, page_size = 20\<rparr> None)\<rparr>)
     = (loadedState\<lparr>error := Some ''Failed to fetch avatars from API'', loading := False\<rparr>, [])
   \<and> fetchGroups_settle (fst (mount initialState))
       (Inr \<lparr>resp_error = JObject, data = data getMockGroupData\<rparr>)
     = (initialState\<lparr>groups := [], groupsLoading := False\<rparr>, [])"
  using logical_failure_handling
    [of "\<lparr>resp_error = JString ''quota exceeded'',
             data = data (getMockAvatarData \<lparr>page = 2, page_size = 20\<rparr> None)\<rparr>"
        "fst (handlePageChange loadedState 2)" False
        "\<lparr>resp_error = JObject, data = data getMockGroupData\<rparr>"]
    logical_failure_handling
    [of "\<lparr>resp_error = JString ''quota exceeded'',
             data = data (getMockAvatarData \<lparr>page = 2, page_size = 20\<rparr> None)\<rparr>"
        "fst (mount initialState)" False
        "\<lparr>resp_error = JObject, data = data getMockGroupData\<rparr>"]
  by (simp add: handlePageChange_valid loadedState_fields mount_initial)

text \<open>
  A groups response with an error leaves \<open>error\<close> empty, and it empties a group
  list that was loaded before.
\<close>

theorem groups_failure_counterexample:
  "truthy (resp_error \<lparr>resp_error = JString ''unauthorized'', data = data getMockGroupData\<rparr>)
   \<and> error (fst (fetchGroups_settle (fst (mount initialState))
        (Inr \<lparr>resp_error = JString ''unauthorized'', data = data getMockGroupData\<rparr>))) = None
   \<and> groups (fst (handleRetry (fst (handleViewModeChange loadedState groups_view)))) = mockGroups
   \<and> mockGroups \<noteq> []
   \<and> groups (fst (fetchGroups_settle
        (fst (handleRetry (fst (handleViewModeChange loadedState groups_view))))
        (Inr \<lparr>resp_error = JString ''unauthorized'', data = data getMockGroupData\<rparr>))) = []"
  by (simp add: fetchGroups_settle_error mount_initial handleRetry_def handleViewModeChange_def
      fetchGroups_call_def loadedState_fields)
    (simp add: initialState_def mockGroups_def)

text \<open>
  Claim C8. A filter change that keeps \<open>selectedGroup\<close> stores the new filters
  and does nothing else: no call is started, and the avatars, the pagination state and
  both loading flags are as before.
\<close>

theorem client_side_filter_no_fetch:
  assumes "selectedGroup newFilters = selectedGroup (filters s)"
  shows "handleFiltersChange s newFilters = (s\<lparr>filters := newFilters\<rparr>, [])
         \<and> avatars (fst (handleFiltersChange s newFilters)) = avatars s
         \<and> currentPage (fst (handleFiltersChange s newFilters)) = currentPage s
         \<and> totalPages (fst (handleFiltersChange s newFilters)) = totalPages s
         \<and> totalItems (fst (handleFiltersChange s newFilters)) = totalItems s
         \<and> loading (fst (handleFiltersChange s newFilters)) = loading s
         \<and> groupsLoading (fst (handleFiltersChange s newFilters)) = groupsLoading s
         \<and> snd (handleFiltersChange s newFilters) = []"
  using assms by (simp add: handleFiltersChange_def selectedGroup_effect_same)

theorem client_side_filter_no_fetch_witness:
  "handleFiltersChange loadedState
      \<lparr>gender_filter = only female, premiumOnly = True, selectedGroup = None\<rparr>
     = (loadedState\<lparr>filters :=
          \<lparr>gender_filter = only female, premiumOnly = True, selectedGroup = None\<rparr>\<rparr>, [])
   \<and> length (filteredAvatars (avatars loadedState) (filters loadedState)) = 20
   \<and> length (filteredAvatars (avatars loadedState)
        \<lparr>gender_filter = only female, premiumOnly = True, selectedGroup = None\<rparr>) = 2"
proof -
  have 1: "length (filteredAvatars (take 20 allMockAvatars)
             \<lparr>gender_filter = all_genders, premiumOnly = False, selectedGroup = None\<rparr>) = 20"
    by (simp add: filteredAvatars_def length_allMockAvatars)
  have 2: "length (filteredAvatars (take 20 allMockAvatars)
        \<lparr>gender_filter = only female, premiumOnly = True, selectedGroup = None\<rparr>) = 2"
    by code_simp
  show ?thesis
    using client_side_filter_no_fetch
      [of "\<lparr>gender_filter = only female, premiumOnly = True, selectedGroup = None\<rparr>" loadedState]
      1 2
    by (simp add: loadedState_fields loadedState_avatars)
qed

text \<open>
  Claim C9, as the code has it. For a group identifier that is not empty and not
  \<open>'all'\<close>, and whose text after removal of \<open>group_\<close> parses to no number or to
  zero, the fallback narrows the pool to its first 15 elements. For \<open>group_k\<close> with
  \<open>k \<ge> 1\<close> in decimal it narrows the pool to the elements at indices
  \<open>(k - 1) * 15\<close> up to \<open>k * 15 - 1\<close> that exist.
\<close>

theorem fallback_group_window:
  "(g \<noteq> [] \<and> g \<noteq> ''all'' \<and>
      (parseInt (replace_first ''group_'' [] g) = None \<or>
       parseInt (replace_first ''group_'' [] g) = Some 0)
    \<longrightarrow> filteredAvatars_of (Some g) = take 15 allMockAvatars)
   \<and> (1 \<le> k \<longrightarrow>
        filteredAvatars_of (Some (''group_'' @ string_of_nat k))
          = take 15 (drop ((k - 1) * 15) allMockAvatars))"
proof (intro conjI impI)
  assume a: "g \<noteq> [] \<and> g \<noteq> ''all'' \<and>
      (parseInt (replace_first ''group_'' [] g) = None \<or>
       parseInt (replace_first ''group_'' [] g) = Some 0)"
  then have "groupIndex_of g = 1"
    by (auto simp: groupIndex_of_def)
  with a show "filteredAvatars_of (Some g) = take 15 allMockAvatars"
    using filteredAvatars_of_index[of g] by simp
next
  assume k: "1 \<le> k"
  let ?g = "''group_'' @ string_of_nat k"
  have gi: "groupIndex_of ?g = int k"
    using k groupIndex_of_group_k[of k] by simp
  have "nat ((int k - 1) * 15) = (k - 1) * 15"
    using k by (simp add: nat_mult_distrib nat_diff_distrib)
  then show "filteredAvatars_of (Some ?g) = take 15 (drop ((k - 1) * 15) allMockAvatars)"
    using filteredAvatars_of_index[of ?g] gi k by (simp del: append.simps)
qed

theorem fallback_group_window_witness:
  "filteredAvatars_of (Some ''vip'') = take 15 allMockAvatars
   \<and> filteredAvatars_of (Some ''group_2'') = take 15 (drop 15 allMockAvatars)"
proof -
  have p: "parseInt (replace_first ''group_'' [] ''vip'') = None"
    by (simp add: parseInt_def is_ws_def is_digit_in_def digit_val_def)
  have s: "string_of_nat 2 = ''2''"
    by code_simp
  show ?thesis
    using fallback_group_window[of "''vip''" 2] p s by simp
qed

text \<open>
  The empty identifier is defined, is not \<open>'all'\<close> and parses to no number, yet
  \<open>if (groupId && ...)\<close> is false for it and the whole pool is used.
\<close>

theorem fallback_empty_group_counterexample:
  "[] \<noteq> ''all'' \<and> parseInt (replace_first ''group_'' [] []) = None
   \<and> filteredAvatars_of (Some []) = allMockAvatars
   \<and> filteredAvatars_of (Some []) \<noteq> take 15 allMockAvatars"
proof -
  have "length (take 15 allMockAvatars) \<noteq> length allMockAvatars"
    by (simp add: length_allMockAvatars)
  then have ne: "take 15 allMockAvatars \<noteq> allMockAvatars" by metis
  have p: "parseInt (replace_first ''group_'' [] []) = None"
    by (simp add: parseInt_def)
  have f: "filteredAvatars_of (Some []) = allMockAvatars"
    by (simp add: filteredAvatars_of_def)
  show ?thesis
    using ne[symmetric] p by (simp only: f) simp
qed

text \<open>
  Claim C10. When \<open>(page - 1) * page_size\<close> is at least the length of the narrowed
  pool, the fallback returns the empty list with count 0, \<open>total\<close> and
  \<open>total_pages\<close> of the whole narrowed pool, and the requested page echoed; for a
  positive page size that page is beyond \<open>total_pages\<close>.
\<close>

theorem fallback_page_past_end:
  assumes "int (length (filteredAvatars_of groupId)) \<le> (page params - 1) * page_size params"
  shows "getMockAvatarData params groupId =
           \<lparr> resp_error = JNull,
             data = \<lparr> page_avatars = [], count = 0,
                      total = int (length (filteredAvatars_of groupId)),
                      data_page = page params, data_page_size = page_size params,
                      total_pages = ceil_div (int (length (filteredAvatars_of groupId))) (page_size params) \<rparr> \<rparr>
         \<and> (0 < page_size params \<longrightarrow>
              (\<exists>tp. total_pages (data (getMockAvatarData params groupId)) = Num tp \<and> tp < page params))"
proof -
  have "js_slice (filteredAvatars_of groupId) ((page params - 1) * page_size params)
          ((page params - 1) * page_size params + page_size params) = []"
    using assms by (rule js_slice_past_end)
  then have 1: "getMockAvatarData params groupId =
           \<lparr> resp_error = JNull,
             data = \<lparr> page_avatars = [], count = 0,
                      total = int (length (filteredAvatars_of groupId)),
                      data_page = page params, data_page_size = page_size params,
                      total_pages = ceil_div (int (length (filteredAvatars_of groupId))) (page_size params) \<rparr> \<rparr>"
    by (simp add: getMockAvatarData_def Let_def)
  have 2: "0 < page_size params \<longrightarrow>
              (\<exists>tp. total_pages (data (getMockAvatarData params groupId)) = Num tp \<and> tp < page params)"
    using assms ceil_div_below[of "page_size params" "int (length (filteredAvatars_of groupId))" "page params"]
    by (simp add: 1 ceil_div_def)
  from 1 2 show ?thesis by blast
qed

theorem fallback_page_past_end_witness:
  "getMockAvatarData \<lparr>page = 4, page_size = 20\<rparr> None =
     \<lparr> resp_error = JNull,
       data = \<lparr> page_avatars = [], count = 0, total = 53,
                data_page = 4, data_page_size = 20, total_pages = Num 3 \<rparr> \<rparr>"
  using fallback_page_past_end[of None "\<lparr>page = 4, page_size = 20\<rparr>"]
  by (simp add: filtered_none length_allMockAvatars ceil_div_def)

end
